theory Spec2Isabelle
  imports Main "HOL-Library.Word"
begin

section \<open>Go values as seen by the package\<close>

text \<open>
  On a 64-bit platform Go's \<open>int\<close> and \<open>uintptr\<close> are 64-bit machine words.
  \<open>slog.Level\<close> is declared as \<open>type Level int\<close>; it is read as a signed number
  through \<open>sint\<close>.
\<close>

type_synonym go_int = "64 word"

text \<open>
  \<open>ReportLocation\<close> is the struct of the same name in the error-report source file.
\<close>

record ReportLocation =
  FilePath :: string
  LineNumber :: go_int
  FunctionName :: string

text \<open>
  A value of Go's interface type \<open>any\<close>. The package inspects such a value only by
  type switches and type assertions, so a value is represented by its dynamic type
  together with the results of the methods the package may call on it:
  \<^item> \<open>Nil\<close> is the nil interface;
  \<^item> \<open>String\<close>, \<open>Bool\<close>, \<open>Int64\<close> are the built-in types, which have no methods;
  \<^item> \<open>Level\<close> is a \<open>slog.Level\<close>;
  \<^item> \<open>ReportLocationPtr\<close> is a non-nil \<open>*ReportLocation\<close>;
  \<^item> \<open>Group\<close> is a \<open>[]slog.Attr\<close> and \<open>MapValue\<close> a \<open>map[string]any\<close>;
  \<^item> \<open>Object\<close> is a value of any other type: the name of its dynamic type (what the
    verb \<open>%T\<close> prints) and, for each of the methods \<open>Error() string\<close>,
    \<open>StackTrace() []byte\<close>, \<open>ReportLocation() *ReportLocation\<close> and
    \<open>LogValue() slog.Value\<close>, either \<open>None\<close> when the type has no such method or
    \<open>Some r\<close> when it has one and calling it returns \<open>r\<close>. A returned
    \<open>*ReportLocation\<close> may be the nil pointer, hence the inner option.
  A call of a method may also panic; that is described beside the value, by the set of
  its panicking methods that \<open>assertErrorValue_run\<close> takes.
  A \<open>slog.Value\<close> is represented by the Go value its \<open>Any()\<close> method returns.
\<close>

datatype any =
    Nil
  | String string
  | Bool bool
  | Int64 go_int
  | Level go_int
  | ReportLocationPtr ReportLocation
  | Group "(string \<times> any) list"
  | MapValue "(string \<times> any) list"
  | Object string "string option" "string option" "ReportLocation option option" "any option"

text \<open>\<open>slog.Attr\<close>: a key and a value.\<close>

record Attr =
  Key :: string
  Value :: any

text \<open>The constructor \<open>slog.String(key, value)\<close>.\<close>

definition slog_String :: "string \<Rightarrow> string \<Rightarrow> Attr" where
  "slog_String k v = \<lparr>Key = k, Value = String v\<rparr>"

subsection \<open>Method sets and interface satisfaction\<close>

fun method_Error :: "any \<Rightarrow> string option" where
  "method_Error (Object tn e st rl lv) = e"
| "method_Error v = None"

fun method_StackTrace :: "any \<Rightarrow> string option" where
  "method_StackTrace (Object tn e st rl lv) = st"
| "method_StackTrace v = None"

fun method_ReportLocation :: "any \<Rightarrow> ReportLocation option option" where
  "method_ReportLocation (Object tn e st rl lv) = rl"
| "method_ReportLocation v = None"

fun method_LogValue :: "any \<Rightarrow> any option" where
  "method_LogValue (Object tn e st rl lv) = lv"
| "method_LogValue v = None"

text \<open>The built-in interface \<open>error\<close>: the method \<open>Error() string\<close>.\<close>

definition implements_error :: "any \<Rightarrow> bool" where
  "implements_error v = (method_Error v \<noteq> None)"

text \<open>\<open>StackTraceError\<close> embeds \<open>error\<close> and adds \<open>StackTrace() []byte\<close>.\<close>

definition implements_StackTraceError :: "any \<Rightarrow> bool" where
  "implements_StackTraceError v = (implements_error v \<and> method_StackTrace v \<noteq> None)"

text \<open>\<open>ReportLocationError\<close> embeds \<open>error\<close> and adds \<open>ReportLocation()\<close>.\<close>

definition implements_ReportLocationError :: "any \<Rightarrow> bool" where
  "implements_ReportLocationError v = (implements_error v \<and> method_ReportLocation v \<noteq> None)"

text \<open>\<open>stackAndReport\<close> embeds both.\<close>

definition implements_stackAndReport :: "any \<Rightarrow> bool" where
  "implements_stackAndReport v =
     (implements_StackTraceError v \<and> implements_ReportLocationError v)"

text \<open>\<open>slog.LogValuer\<close>: the method \<open>LogValue() slog.Value\<close>.\<close>

definition implements_LogValuer :: "any \<Rightarrow> bool" where
  "implements_LogValuer v = (method_LogValue v \<noteq> None)"

text \<open>What \<open>fmt\<close>'s verb \<open>%T\<close> prints: the dynamic type of the value.\<close>

fun typeName :: "any \<Rightarrow> string" where
  "typeName Nil = ''<nil>''"
| "typeName (String s) = ''string''"
| "typeName (Bool b) = ''bool''"
| "typeName (Int64 i) = ''int64''"
| "typeName (Level l) = ''slog.Level''"
| "typeName (ReportLocationPtr l) = ''*sloggcp.ReportLocation''"
| "typeName (Group as) = ''[]slog.Attr''"
| "typeName (MapValue m) = ''map[string]interface {}''"
| "typeName (Object tn e st rl lv) = tn"

section \<open>Key and severity constants\<close>

text \<open>The keys and levels of the standard library's \<open>log/slog\<close>.\<close>

definition slog_TimeKey :: string where "slog_TimeKey = ''time''"
definition slog_LevelKey :: string where "slog_LevelKey = ''level''"
definition slog_MessageKey :: string where "slog_MessageKey = ''msg''"
definition slog_SourceKey :: string where "slog_SourceKey = ''source''"

definition slog_LevelDebug :: go_int where "slog_LevelDebug = - 4"
definition slog_LevelInfo :: go_int where "slog_LevelInfo = 0"
definition slog_LevelWarn :: go_int where "slog_LevelWarn = 4"
definition slog_LevelError :: go_int where "slog_LevelError = 8"

text \<open>The constants of \<open>replace.go\<close>.\<close>

definition SeverityKey :: string where "SeverityKey = ''severity''"
definition MessageKey :: string where "MessageKey = ''message''"
definition SourceLocationKey :: string where
  "SourceLocationKey = ''logging.googleapis.com/sourceLocation''"
definition TimKey :: string where "TimKey = slog_TimeKey"

definition DebugSeverity :: string where "DebugSeverity = ''DEBUG''"
definition InfoSeverity :: string where "InfoSeverity = ''INFO''"
definition WarningSeverity :: string where "WarningSeverity = ''WARNING''"
definition ErrorSeverity :: string where "ErrorSeverity = ''ERROR''"
definition DefaultSeverity :: string where "DefaultSeverity = ''DEFAULT''"

text \<open>The constants of the error-report source file.\<close>

definition ErrorKey :: string where "ErrorKey = ''error''"
definition ErrorReportTypeKey :: string where "ErrorReportTypeKey = ''@type''"
definition ErrorReportTypeValue :: string where
  "ErrorReportTypeValue =
     ''type.googleapis.com/google.devtools.clouderrorreporting.v1beta1.ReportedErrorEvent''"
definition ReportLocationKey :: string where "ReportLocationKey = ''reportLocation''"

section \<open>ReplaceAttr\<close>

definition severityDebug :: Attr where "severityDebug = slog_String SeverityKey DebugSeverity"
definition severityInfo :: Attr where "severityInfo = slog_String SeverityKey InfoSeverity"
definition severityWarn :: Attr where "severityWarn = slog_String SeverityKey WarningSeverity"
definition severityError :: Attr where "severityError = slog_String SeverityKey ErrorSeverity"
definition severityDefault :: Attr where
  "severityDefault = slog_String SeverityKey DefaultSeverity"

text \<open>
  \<open>replaceLevelAttr\<close>: the type assertion \<open>a.Value.Any().(slog.Level)\<close> in its
  two-result form, then the switch over the level.
\<close>

definition replaceLevelAttr :: "Attr \<Rightarrow> Attr" where
  "replaceLevelAttr a =
     (case Value a of
        Level logLevel \<Rightarrow>
          if logLevel = slog_LevelDebug then severityDebug
          else if logLevel = slog_LevelInfo then severityInfo
          else if logLevel = slog_LevelWarn then severityWarn
          else if logLevel = slog_LevelError then severityError
          else severityDefault
      | _ \<Rightarrow> severityDefault)"

text \<open>
  \<open>ReplaceAttr\<close>: attributes inside a group are returned as they are; at the top level
  the switch over the key. The case of the time key has an empty body.
\<close>

definition ReplaceAttr :: "string list \<Rightarrow> Attr \<Rightarrow> Attr" where
  "ReplaceAttr groups a =
     (if length groups > 0 then a
      else if Key a = slog_LevelKey then replaceLevelAttr a
      else if Key a = slog_SourceKey then a\<lparr>Key := SourceLocationKey\<rparr>
      else if Key a = slog_MessageKey then a\<lparr>Key := MessageKey\<rparr>
      else if Key a = slog_TimeKey then a
      else a)"

section \<open>Error reports\<close>

text \<open>
  The stack-unwinding facility of the Go runtime, as \<open>NewReportLocation\<close> sees it:
  \<open>runtime_Caller rt skip\<close> is the result \<open>(pc, file, line, ok)\<close> of
  \<open>runtime.Caller(skip)\<close> called in the body of \<open>NewReportLocation\<close>, and
  \<open>runtime_FuncForPC rt pc\<close> is the name of the function \<open>runtime.FuncForPC(pc)\<close>
  describes, or \<open>None\<close> when it returns nil. Frame 0 is \<open>NewReportLocation\<close> itself
  and frame 1 is the function that called it. The addition \<open>skip + 1\<close> wraps as Go's
  does.
\<close>

record runtime =
  runtime_Caller :: "go_int \<Rightarrow> go_int \<times> string \<times> go_int \<times> bool"
  runtime_FuncForPC :: "go_int \<Rightarrow> string option"

definition NewReportLocation :: "runtime \<Rightarrow> go_int \<Rightarrow> ReportLocation option" where
  "NewReportLocation rt skip =
     (case runtime_Caller rt (skip + 1) of
        (pc, file, line, ok) \<Rightarrow>
          let fn = runtime_FuncForPC rt pc in
          if \<not> ok \<or> fn = None then None
          else map_option
                 (\<lambda>fn_Name. \<lparr>FilePath = file, LineNumber = line, FunctionName = fn_Name\<rparr>) fn)"

text \<open>
  The message of the default case:
  \<open>fmt.Sprintf("!!! can't handle error report for type %T !!!", v)\<close>.
\<close>

definition cant_handle :: "any \<Rightarrow> string" where
  "cant_handle v = ''!!! can't handle error report for type '' @ typeName v @ '' !!!''"

text \<open>
  \<open>assertErrorValue\<close>: the type switch, its cases in the order of the source. A case
  of an interface type is taken when the dynamic type has all the methods of the
  interface; both results start as the zero value (the empty string, the nil pointer).
\<close>

fun assertErrorValue :: "runtime \<Rightarrow> any \<Rightarrow> string \<times> ReportLocation option" where
  "assertErrorValue rt (Object tn (Some err) (Some stack) (Some loc) lv) = (stack, loc)"
| "assertErrorValue rt (Object tn (Some err) (Some stack) None lv) = (stack, None)"
| "assertErrorValue rt (Object tn (Some err) None (Some loc) lv) = (err, loc)"
| "assertErrorValue rt (Object tn (Some err) None None lv) = (err, None)"
| "assertErrorValue rt (String s) = (s, None)"
| "assertErrorValue rt v = (cant_handle v, NewReportLocation rt 0)"

text \<open>
  A Go map is a reference that may be nil: \<open>None\<close> is the nil map, which can be read
  but not assigned to; \<open>Some m\<close> is an allocated map with the entries \<open>m\<close>.
\<close>

type_synonym go_map = "(string \<rightharpoonup> any) option"

datatype panic = AssignmentToEntryInNilMap

definition map_assign :: "go_map \<Rightarrow> string \<Rightarrow> any \<Rightarrow> panic + go_map" where
  "map_assign out k v =
     (case out of None \<Rightarrow> Inl AssignmentToEntryInNilMap | Some m \<Rightarrow> Inr (Some (m(k \<mapsto> v))))"

text \<open>Sequencing of steps that may panic.\<close>

definition and_then :: "panic + 'a \<Rightarrow> ('a \<Rightarrow> panic + 'b) \<Rightarrow> panic + 'b" where
  "and_then r f = (case r of Inl p \<Rightarrow> Inl p | Inr x \<Rightarrow> f x)"

text \<open>
  \<open>checkAndSetErrorReport\<close>: the map is updated in place by the source; here the
  updated map is returned beside the boolean. \<open>extractValue\<close> belongs to the handler,
  which is not among the sources, and is taken as a parameter.
\<close>

definition checkAndSetErrorReport ::
  "runtime \<Rightarrow> (any \<Rightarrow> any) \<Rightarrow> Attr \<Rightarrow> go_map \<Rightarrow> panic + bool \<times> go_map" where
  "checkAndSetErrorReport rt extractValue a out =
     (if Key a \<noteq> ErrorKey then Inr (False, out)
      else
        let val = Value a in
        case assertErrorValue rt val of
          (errMsg, reportLocation) \<Rightarrow>
            and_then (map_assign out ErrorReportTypeKey (String ErrorReportTypeValue)) (\<lambda>out.
            and_then (map_assign out MessageKey (String errMsg)) (\<lambda>out.
            and_then (map_assign out ErrorKey val) (\<lambda>out.
            and_then (case reportLocation of
                        None \<Rightarrow> Inr out
                      | Some l \<Rightarrow> map_assign out ReportLocationKey (ReportLocationPtr l)) (\<lambda>out.
            and_then (case method_LogValue val of
                        Some lv \<Rightarrow> map_assign out ErrorKey (extractValue lv)
                      | None \<Rightarrow>
                          (case method_Error val of
                             Some err \<Rightarrow> map_assign out ErrorKey (String err)
                           | None \<Rightarrow> Inr out)) (\<lambda>out.
            Inr (True, out)))))))"

subsection \<open>Method calls that panic\<close>

text \<open>
  The methods \<open>Error\<close>, \<open>StackTrace\<close> and \<open>ReportLocation\<close> belong to the caller's
  types, and a call of one may panic instead of returning: a nil \<open>*fs.PathError\<close>
  satisfies \<open>error\<close>, and its \<open>Error\<close> method dereferences the nil receiver. The
  package has no \<open>recover\<close>, so such a panic leaves \<open>assertErrorValue\<close> and the
  logging call. A Go value is then a value \<open>v\<close> of type \<open>any\<close> together with the set
  of its methods whose call panics; for these the result recorded in \<open>v\<close> is never read.
\<close>

datatype method_name = Error_method | StackTrace_method | ReportLocation_method

text \<open>
  A method call: \<open>Inl m\<close> is the panic of the method \<open>m\<close>, \<open>Inr r\<close> its return with
  the result \<open>r\<close>.
\<close>

definition call_method :: "method_name set \<Rightarrow> method_name \<Rightarrow> 'r \<Rightarrow> method_name + 'r" where
  "call_method panicking m r = (if m \<in> panicking then Inl m else Inr r)"

text \<open>
  \<open>assertErrorValue\<close> with its method calls as they may go: the same type switch, each
  case calling its methods in the order of the source, and the first panic ending the
  function.
\<close>

fun assertErrorValue_run ::
  "runtime \<Rightarrow> method_name set \<Rightarrow> any \<Rightarrow> method_name + string \<times> ReportLocation option" where
  "assertErrorValue_run rt panicking (Object tn (Some err) (Some stack) (Some loc) lv) =
     (case call_method panicking StackTrace_method stack of
        Inl m \<Rightarrow> Inl m
      | Inr errMsg \<Rightarrow>
          (case call_method panicking ReportLocation_method loc of
             Inl m \<Rightarrow> Inl m
           | Inr reportLocation \<Rightarrow> Inr (errMsg, reportLocation)))"
| "assertErrorValue_run rt panicking (Object tn (Some err) (Some stack) None lv) =
     (case call_method panicking StackTrace_method stack of
        Inl m \<Rightarrow> Inl m
      | Inr errMsg \<Rightarrow> Inr (errMsg, None))"
| "assertErrorValue_run rt panicking (Object tn (Some err) None (Some loc) lv) =
     (case call_method panicking Error_method err of
        Inl m \<Rightarrow> Inl m
      | Inr errMsg \<Rightarrow>
          (case call_method panicking ReportLocation_method loc of
             Inl m \<Rightarrow> Inl m
           | Inr reportLocation \<Rightarrow> Inr (errMsg, reportLocation)))"
| "assertErrorValue_run rt panicking (Object tn (Some err) None None lv) =
     (case call_method panicking Error_method err of
        Inl m \<Rightarrow> Inl m
      | Inr errMsg \<Rightarrow> Inr (errMsg, None))"
| "assertErrorValue_run rt panicking (String s) = Inr (s, None)"
| "assertErrorValue_run rt panicking v = Inr (cant_handle v, NewReportLocation rt 0)"

text \<open>
  The methods the type switch calls on a value, by the interface whose case is taken:
  \<open>stackAndReport\<close>, \<open>StackTraceError\<close>, \<open>ReportLocationError\<close>, \<open>error\<close>, and none
  for a string or in the default case.
\<close>

definition called_methods :: "any \<Rightarrow> method_name set" where
  "called_methods v =
     (if implements_stackAndReport v then {StackTrace_method, ReportLocation_method}
      else if implements_StackTraceError v then {StackTrace_method}
      else if implements_ReportLocationError v then {Error_method, ReportLocation_method}
      else if implements_error v then {Error_method}
      else {})"

section \<open>The level gate of the record compiler\<close>

text \<open>
  Modelled from the spec: the result of the record compiler, \<open>Document | Skip\<close>. The
  handler that implements the compiler (the source file defining
  \<open>NewErrorReportingHandler\<close>) is not among the sources.
\<close>

datatype 'doc compiled = Skip | Document 'doc

text \<open>
  Modelled from the spec: the configured minimum level, which is INFO when the options
  leave it unspecified (\<open>None\<close>).
\<close>

definition minimum_level :: "go_int option \<Rightarrow> go_int" where
  "minimum_level threshold = (case threshold of None \<Rightarrow> slog_LevelInfo | Some l \<Rightarrow> l)"

text \<open>
  Modelled from the spec: the record compiler, whose contract is
  \<open>compile(chain, level, message, callAttrs, options) \<rightarrow> Document | Skip\<close>. Its step 1
  is the level gate: a level below the configured minimum yields \<open>Skip\<close>, and no
  document is produced. The steps 2 to 6, which build the document, are the parameter
  \<open>build\<close>; of the options only the minimum level \<open>threshold\<close> takes part.
\<close>

definition compile ::
  "('chain \<Rightarrow> go_int \<Rightarrow> string \<Rightarrow> Attr list \<Rightarrow> 'doc) \<Rightarrow>
   'chain \<Rightarrow> go_int \<Rightarrow> string \<Rightarrow> Attr list \<Rightarrow> go_int option \<Rightarrow> 'doc compiled" where
  "compile build chain level message callAttrs threshold =
     (if sint level < sint (minimum_level threshold) then Skip
      else Document (build chain level message callAttrs))"

text \<open>
  Modelled from the spec: the bytes the sink receives for one log call. The encoder is
  invoked on the document when there is one, and never on \<open>Skip\<close>.
\<close>

definition sink_receives :: "('doc \<Rightarrow> string) \<Rightarrow> 'doc compiled \<Rightarrow> string" where
  "sink_receives encode r = (case r of Skip \<Rightarrow> [] | Document d \<Rightarrow> encode d)"

section \<open>Sample values\<close>

text \<open>
  Values for the examples below, shaped after the mocks of the handler test: an error
  with a stack trace and a report location, one with a stack trace only, one with a
  report location only, a plain error as \<open>errors.New\<close> makes it, and an error that is a
  \<open>slog.LogValuer\<close> too.
\<close>

definition sample_location :: ReportLocation where
  "sample_location = \<lparr>FilePath = ''mock.go'', LineNumber = 42, FunctionName = ''mock''\<rparr>"

definition sample_stackAndReport :: any where
  "sample_stackAndReport =
     Object ''sloggcp.mockStackAndReport'' (Some ''mockStackAndReport'') (Some ''stack'')
       (Some (Some sample_location)) None"

definition sample_StackTraceError :: any where
  "sample_StackTraceError =
     Object ''sloggcp.mockStackTraceError'' (Some ''mockStackTraceError'') (Some ''stack'')
       None None"

definition sample_ReportLocationError :: any where
  "sample_ReportLocationError =
     Object ''sloggcp.mockReportLocationError'' (Some ''mockReportLocationError'') None
       (Some (Some sample_location)) None"

definition sample_error :: any where
  "sample_error = Object ''*errors.errorString'' (Some ''something went wrong'') None None None"

definition sample_stackAndReportValuer :: any where
  "sample_stackAndReportValuer =
     Object ''sloggcp.mockStackAndReportValuer'' (Some ''mockStackAndReportValuer'')
       (Some ''stack'') (Some (Some sample_location))
       (Some (Group [(''key1'', String ''value1''), (''key2'', Int64 42)]))"

text \<open>
  The nil pointer \<open>(*fs.PathError)(nil)\<close>: its only method among those of the
  interfaces above is \<open>Error\<close>. Calling it panics (see the counterexample of C8, which
  gives \<open>Error_method\<close> as panicking), so that the result recorded here is never read.
\<close>

definition nil_PathError :: any where
  "nil_PathError = Object ''*fs.PathError'' (Some []) None None None"

text \<open>
  Two runtimes: one whose stack capture succeeds for the caller of
  \<open>NewReportLocation\<close>, and one whose stack capture is unavailable.
\<close>

definition sample_runtime :: runtime where
  "sample_runtime =
     \<lparr>runtime_Caller =
        (\<lambda>skip. if skip = 1 then (7, ''error_report.go'', 65, True) else (0, [], 0, False)),
      runtime_FuncForPC =
        (\<lambda>pc. if pc = 7 then Some ''github.com/muhlemmer/sloggcp.assertErrorValue''
              else None)\<rparr>"

definition unavailable_runtime :: runtime where
  "unavailable_runtime =
     \<lparr>runtime_Caller = (\<lambda>skip. (0, [], 0, False)), runtime_FuncForPC = (\<lambda>pc. None)\<rparr>"

text \<open>A stand-in for the handler's \<open>extractValue\<close> in the examples: a group becomes a map.\<close>

definition sample_extractValue :: "any \<Rightarrow> any" where
  "sample_extractValue v = (case v of Group as \<Rightarrow> MapValue as | _ \<Rightarrow> v)"

section \<open>Auxiliary facts\<close>

lemmas key_defs = ErrorKey_def ErrorReportTypeKey_def MessageKey_def ReportLocationKey_def

lemmas severity_defs =
  severityDebug_def severityInfo_def severityWarn_def severityError_def severityDefault_def
  slog_String_def SeverityKey_def DebugSeverity_def InfoSeverity_def WarningSeverity_def
  ErrorSeverity_def DefaultSeverity_def

lemmas level_defs = slog_LevelDebug_def slog_LevelInfo_def slog_LevelWarn_def slog_LevelError_def

lemmas implements_defs =
  implements_error_def implements_StackTraceError_def implements_ReportLocationError_def
  implements_stackAndReport_def implements_LogValuer_def

text \<open>The type switch of \<open>assertErrorValue\<close>, read through the method sets.\<close>

lemma assertErrorValue_cases:
  "assertErrorValue rt v =
     (case method_Error v of
        Some err \<Rightarrow>
          (case method_StackTrace v of
             Some stack \<Rightarrow>
               (case method_ReportLocation v of Some loc \<Rightarrow> (stack, loc) | None \<Rightarrow> (stack, None))
           | None \<Rightarrow>
               (case method_ReportLocation v of Some loc \<Rightarrow> (err, loc) | None \<Rightarrow> (err, None)))
      | None \<Rightarrow>
          (case v of String s \<Rightarrow> (s, None) | _ \<Rightarrow> (cant_handle v, NewReportLocation rt 0)))"
  by (cases "(rt, v)" rule: assertErrorValue.cases) simp_all

text \<open>
  The first case of the switch is the interface \<open>stackAndReport\<close>; it is taken exactly
  by the values that satisfy both \<open>StackTraceError\<close> and \<open>ReportLocationError\<close>.
\<close>

lemma implements_stackAndReport_iff:
  "implements_stackAndReport v \<longleftrightarrow>
     method_Error v \<noteq> None \<and> method_StackTrace v \<noteq> None \<and> method_ReportLocation v \<noteq> None"
  by (auto simp: implements_defs)

text \<open>On an allocated map no assignment panics; the map that results.\<close>

lemma checkAndSetErrorReport_allocated:
  "Key a = ErrorKey \<Longrightarrow>
   checkAndSetErrorReport rt ev a (Some m) =
     Inr (True, Some
       (let val = Value a;
            r = assertErrorValue rt val;
            m1 = m(ErrorReportTypeKey \<mapsto> String ErrorReportTypeValue,
                   MessageKey \<mapsto> String (fst r), ErrorKey \<mapsto> val);
            m2 = (case snd r of
                    None \<Rightarrow> m1
                  | Some l \<Rightarrow> m1(ReportLocationKey \<mapsto> ReportLocationPtr l))
        in case method_LogValue val of
             Some lv \<Rightarrow> m2(ErrorKey \<mapsto> ev lv)
           | None \<Rightarrow>
               (case method_Error val of
                  Some err \<Rightarrow> m2(ErrorKey \<mapsto> String err)
                | None \<Rightarrow> m2)))"
  by (simp add: checkAndSetErrorReport_def and_then_def map_assign_def Let_def
        split: prod.splits option.splits)

lemma checkAndSetErrorReport_other_key:
  "Key a \<noteq> ErrorKey \<Longrightarrow> checkAndSetErrorReport rt ev a out = Inr (False, out)"
  by (simp add: checkAndSetErrorReport_def)

lemma checkAndSetErrorReport_nil_map:
  "Key a = ErrorKey \<Longrightarrow>
   checkAndSetErrorReport rt ev a None = Inl AssignmentToEntryInNilMap"
  by (simp add: checkAndSetErrorReport_def and_then_def map_assign_def split: prod.splits)

section \<open>The error report\<close>



text \<open>
  C4. When the error report is triggered, the value stored under \<open>"error"\<close> is the
  expansion \<open>extractValue(v.LogValue())\<close> when the value is a \<open>slog.LogValuer\<close>, whether
  or not it is an error too; otherwise its \<open>Error()\<close> text when it is an error;
  otherwise the value itself.
\<close>

theorem checkAndSetErrorReport_stored_error:
  "Key a = ErrorKey \<Longrightarrow>
   \<exists>m'. checkAndSetErrorReport rt extractValue a (Some m) = Inr (True, Some m')
      \<and> m' ''error'' =
          Some (case method_LogValue (Value a) of
                  Some lv \<Rightarrow> extractValue lv
                | None \<Rightarrow>
                    (case method_Error (Value a) of
                       Some err \<Rightarrow> String err
                     | None \<Rightarrow> Value a))"
  by (simp add: checkAndSetErrorReport_allocated Let_def key_defs split: option.splits)

theorem checkAndSetErrorReport_stored_error_witness:
  "Key \<lparr>Key = ''error'', Value = sample_stackAndReportValuer\<rparr> = ErrorKey
   \<and> implements_LogValuer sample_stackAndReportValuer
   \<and> implements_error sample_stackAndReportValuer
   \<and> (\<exists>m'. checkAndSetErrorReport unavailable_runtime sample_extractValue
              \<lparr>Key = ''error'', Value = sample_stackAndReportValuer\<rparr> (Some Map.empty) =
              Inr (True, Some m')
         \<and> m' ''error'' = Some (MapValue [(''key1'', String ''value1''), (''key2'', Int64 42)]))"
proof -
  let ?a = "\<lparr>Key = ''error'', Value = sample_stackAndReportValuer\<rparr>"
  have h: "Key ?a = ErrorKey"
    by (simp add: ErrorKey_def)
  have c: "implements_LogValuer sample_stackAndReportValuer
           \<and> implements_error sample_stackAndReportValuer"
    by (simp add: implements_defs sample_stackAndReportValuer_def)
  from checkAndSetErrorReport_stored_error
         [OF h, of unavailable_runtime sample_extractValue Map.empty]
  show ?thesis
    using h c by (simp add: sample_stackAndReportValuer_def sample_extractValue_def)
qed

text \<open>
  C10. For an attribute whose key is not \<open>"error"\<close>, \<open>checkAndSetErrorReport\<close> returns
  false and the map, allocated or nil, is the one it was given. For an attribute whose
  key is \<open>"error"\<close> and an allocated map, every key other than \<open>"@type"\<close>, \<open>"message"\<close>,
  \<open>"error"\<close> and \<open>"reportLocation"\<close> keeps its entry; on the nil map the first assignment
  panics, so that nothing is changed there either.
\<close>

theorem checkAndSetErrorReport_frame:
  "(Key a \<noteq> ErrorKey \<longrightarrow> checkAndSetErrorReport rt ev a out = Inr (False, out))
   \<and> (Key a = ErrorKey \<longrightarrow>
        checkAndSetErrorReport rt ev a None = Inl AssignmentToEntryInNilMap
        \<and> (\<exists>m'. checkAndSetErrorReport rt ev a (Some m) = Inr (True, Some m')
              \<and> (\<forall>k. k \<notin> {''@type'', ''message'', ''error'', ''reportLocation''} \<longrightarrow>
                     m' k = m k)))"
proof (intro conjI impI)
  assume "Key a \<noteq> ErrorKey"
  then show "checkAndSetErrorReport rt ev a out = Inr (False, out)"
    by (rule checkAndSetErrorReport_other_key)
next
  assume "Key a = ErrorKey"
  then show "checkAndSetErrorReport rt ev a None = Inl AssignmentToEntryInNilMap"
    by (rule checkAndSetErrorReport_nil_map)
next
  assume "Key a = ErrorKey"
  then show "\<exists>m'. checkAndSetErrorReport rt ev a (Some m) = Inr (True, Some m')
              \<and> (\<forall>k. k \<notin> {''@type'', ''message'', ''error'', ''reportLocation''} \<longrightarrow>
                     m' k = m k)"
    by (simp add: checkAndSetErrorReport_allocated Let_def key_defs split: option.splits)
qed

theorem checkAndSetErrorReport_frame_witness:
  "Key \<lparr>Key = ''foo'', Value = String ''bar''\<rparr> \<noteq> ErrorKey
   \<and> checkAndSetErrorReport sample_runtime sample_extractValue
        \<lparr>Key = ''foo'', Value = String ''bar''\<rparr>
        (Some [''message'' \<mapsto> String ''info message'']) =
       Inr (False, Some [''message'' \<mapsto> String ''info message''])
   \<and> Key \<lparr>Key = ''error'', Value = String ''boom''\<rparr> = ErrorKey
   \<and> ''severity'' \<notin> {''@type'', ''message'', ''error'', ''reportLocation''}
   \<and> (\<exists>m'. checkAndSetErrorReport sample_runtime sample_extractValue
              \<lparr>Key = ''error'', Value = String ''boom''\<rparr>
              (Some [''severity'' \<mapsto> String ''ERROR'', ''message'' \<mapsto> String ''x'']) =
              Inr (True, Some m')
         \<and> m' ''severity'' = Some (String ''ERROR''))"
proof -
  let ?foo = "\<lparr>Key = ''foo'', Value = String ''bar''\<rparr>"
  let ?err = "\<lparr>Key = ''error'', Value = String ''boom''\<rparr>"
  let ?info = "[''message'' \<mapsto> String ''info message'']"
  let ?doc = "[''severity'' \<mapsto> String ''ERROR'', ''message'' \<mapsto> String ''x'']"
  let ?run = "checkAndSetErrorReport sample_runtime sample_extractValue"
  have h1: "Key ?foo \<noteq> ErrorKey"
    by (simp add: ErrorKey_def)
  have h2: "Key ?err = ErrorKey"
    by (simp add: ErrorKey_def)
  have h3: "''severity'' \<notin> {''@type'', ''message'', ''error'', ''reportLocation''}"
    by simp
  have m: "?doc ''severity'' = Some (String ''ERROR'')"
    by simp
  note t1 = checkAndSetErrorReport_frame
              [where a = ?foo and rt = sample_runtime and ev = sample_extractValue
                 and out = "Some ?info"]
  note t2 = checkAndSetErrorReport_frame
              [where a = ?err and rt = sample_runtime and ev = sample_extractValue and m = ?doc]
  have c1: "?run ?foo (Some ?info) = Inr (False, Some ?info)"
    by (rule t1 [THEN conjunct1, THEN mp, OF h1])
  from t2 [THEN conjunct2, THEN mp, OF h2, THEN conjunct2]
  obtain m' where r: "?run ?err (Some ?doc) = Inr (True, Some m')"
    and f: "\<forall>k. k \<notin> {''@type'', ''message'', ''error'', ''reportLocation''} \<longrightarrow> m' k = ?doc k"
    by (elim exE conjE)
  from f [rule_format, OF h3] m have s: "m' ''severity'' = Some (String ''ERROR'')"
    by (rule trans)
  have c2: "\<exists>m'. ?run ?err (Some ?doc) = Inr (True, Some m')
                     \<and> m' ''severity'' = Some (String ''ERROR'')"
    by (rule exI [of _ m'], rule conjI [OF r s])
  show ?thesis
    by (rule conjI [OF h1 conjI [OF c1 conjI [OF h2 conjI [OF h3 c2]]]])
qed

section \<open>The error extractor\<close>

text \<open>
  C2. \<open>assertErrorValue\<close> dispatches in the priority order of its type switch. A value
  that satisfies both \<open>StackTraceError\<close> and \<open>ReportLocationError\<close> gives its stack
  trace as the message and the location it provides; one that satisfies
  \<open>StackTraceError\<close> only gives its stack trace and the nil location; one that
  satisfies \<open>ReportLocationError\<close> only gives its \<open>Error()\<close> text and the location it
  provides; any other error gives its \<open>Error()\<close> text and the nil location; a string
  gives itself and the nil location.
\<close>

theorem assertErrorValue_dispatch:
  "(implements_StackTraceError v \<and> implements_ReportLocationError v \<longrightarrow>
      method_StackTrace v = Some (fst (assertErrorValue rt v)) \<and>
      method_ReportLocation v = Some (snd (assertErrorValue rt v)))
   \<and> (implements_StackTraceError v \<and> \<not> implements_ReportLocationError v \<longrightarrow>
      method_StackTrace v = Some (fst (assertErrorValue rt v)) \<and>
      snd (assertErrorValue rt v) = None)
   \<and> (implements_ReportLocationError v \<and> \<not> implements_StackTraceError v \<longrightarrow>
      method_Error v = Some (fst (assertErrorValue rt v)) \<and>
      method_ReportLocation v = Some (snd (assertErrorValue rt v)))
   \<and> (implements_error v \<and> \<not> implements_StackTraceError v \<and>
        \<not> implements_ReportLocationError v \<longrightarrow>
      method_Error v = Some (fst (assertErrorValue rt v)) \<and>
      snd (assertErrorValue rt v) = None)
   \<and> assertErrorValue rt (String s) = (s, None)"
  by (auto simp: assertErrorValue_cases implements_StackTraceError_def
        implements_ReportLocationError_def implements_error_def split: option.splits)

theorem assertErrorValue_dispatch_witness:
  "(implements_StackTraceError sample_stackAndReport
      \<and> implements_ReportLocationError sample_stackAndReport
      \<and> assertErrorValue sample_runtime sample_stackAndReport =
          (''stack'', Some sample_location))
   \<and> (implements_StackTraceError sample_StackTraceError
      \<and> \<not> implements_ReportLocationError sample_StackTraceError
      \<and> assertErrorValue sample_runtime sample_StackTraceError = (''stack'', None))
   \<and> (implements_ReportLocationError sample_ReportLocationError
      \<and> \<not> implements_StackTraceError sample_ReportLocationError
      \<and> assertErrorValue sample_runtime sample_ReportLocationError =
          (''mockReportLocationError'', Some sample_location))
   \<and> (implements_error sample_error \<and> \<not> implements_StackTraceError sample_error
      \<and> \<not> implements_ReportLocationError sample_error
      \<and> assertErrorValue sample_runtime sample_error = (''something went wrong'', None))
   \<and> assertErrorValue sample_runtime (String ''something went wrong'') =
       (''something went wrong'', None)"
proof -
  have h1: "implements_StackTraceError sample_stackAndReport
            \<and> implements_ReportLocationError sample_stackAndReport"
    by (simp add: implements_defs sample_stackAndReport_def)
  have h2: "implements_StackTraceError sample_StackTraceError
            \<and> \<not> implements_ReportLocationError sample_StackTraceError"
    by (simp add: implements_defs sample_StackTraceError_def)
  have h3: "implements_ReportLocationError sample_ReportLocationError
            \<and> \<not> implements_StackTraceError sample_ReportLocationError"
    by (simp add: implements_defs sample_ReportLocationError_def)
  have h4: "implements_error sample_error \<and> \<not> implements_StackTraceError sample_error
            \<and> \<not> implements_ReportLocationError sample_error"
    by (simp add: implements_defs sample_error_def)
  have m1: "method_StackTrace sample_stackAndReport = Some ''stack''
            \<and> method_ReportLocation sample_stackAndReport = Some (Some sample_location)"
    by (simp add: sample_stackAndReport_def)
  have m2: "method_StackTrace sample_StackTraceError = Some ''stack''"
    by (simp add: sample_StackTraceError_def)
  have m3: "method_Error sample_ReportLocationError = Some ''mockReportLocationError''
            \<and> method_ReportLocation sample_ReportLocationError = Some (Some sample_location)"
    by (simp add: sample_ReportLocationError_def)
  have m4: "method_Error sample_error = Some ''something went wrong''"
    by (simp add: sample_error_def)
  from assertErrorValue_dispatch [of sample_stackAndReport sample_runtime] h1 m1
  have c1: "assertErrorValue sample_runtime sample_stackAndReport =
              (''stack'', Some sample_location)"
    by (simp add: prod_eq_iff)
  from assertErrorValue_dispatch [of sample_StackTraceError sample_runtime] h2 m2
  have c2: "assertErrorValue sample_runtime sample_StackTraceError = (''stack'', None)"
    by (simp add: prod_eq_iff)
  from assertErrorValue_dispatch [of sample_ReportLocationError sample_runtime] h3 m3
  have c3: "assertErrorValue sample_runtime sample_ReportLocationError =
              (''mockReportLocationError'', Some sample_location)"
    by (simp add: prod_eq_iff)
  from assertErrorValue_dispatch [of sample_error sample_runtime] h4 m4
  have c4: "assertErrorValue sample_runtime sample_error = (''something went wrong'', None)"
    by (simp add: prod_eq_iff)
  from assertErrorValue_dispatch [of sample_error sample_runtime "''something went wrong''"]
  have c5: "assertErrorValue sample_runtime (String ''something went wrong'') =
              (''something went wrong'', None)"
    by blast
  from h1 h2 h3 h4 c1 c2 c3 c4 c5 show ?thesis
    by blast
qed

text \<open>
  C5. For a value of an unrecognized type (not a string, not an error, and so satisfying
  neither \<open>StackTraceError\<close> nor \<open>ReportLocationError\<close>), \<open>assertErrorValue\<close> returns
  the diagnostic message that names the dynamic type of the value, together with the
  location \<open>NewReportLocation(0)\<close> captures at that moment; when the stack capture
  succeeds, this is the file, line and function of the frame that calls
  \<open>NewReportLocation\<close>, which is the extractor \<open>assertErrorValue\<close> itself.
\<close>

theorem assertErrorValue_unrecognized:
  "(\<forall>s. v \<noteq> String s) \<and> \<not> implements_error v \<and> \<not> implements_StackTraceError v
     \<and> \<not> implements_ReportLocationError v \<Longrightarrow>
   assertErrorValue rt v =
     (''!!! can't handle error report for type '' @ typeName v @ '' !!!'', NewReportLocation rt 0)
   \<and> (runtime_Caller rt 1 = (pc, path, line_no, True) \<and> runtime_FuncForPC rt pc = Some fn \<longrightarrow>
        snd (assertErrorValue rt v) =
          Some \<lparr>FilePath = path, LineNumber = line_no, FunctionName = fn\<rparr>)"
  by (cases v)
     (auto simp: assertErrorValue_cases implements_error_def cant_handle_def
        NewReportLocation_def split: option.splits)

theorem assertErrorValue_unrecognized_witness:
  "((\<forall>s. Int64 42 \<noteq> String s) \<and> \<not> implements_error (Int64 42)
      \<and> \<not> implements_StackTraceError (Int64 42) \<and> \<not> implements_ReportLocationError (Int64 42))
   \<and> (runtime_Caller sample_runtime 1 = (7, ''error_report.go'', 65, True)
      \<and> runtime_FuncForPC sample_runtime 7 =
          Some ''github.com/muhlemmer/sloggcp.assertErrorValue'')
   \<and> assertErrorValue sample_runtime (Int64 42) =
       (''!!! can't handle error report for type int64 !!!'',
        Some \<lparr>FilePath = ''error_report.go'', LineNumber = 65,
              FunctionName = ''github.com/muhlemmer/sloggcp.assertErrorValue''\<rparr>)"
proof -
  have h: "(\<forall>s. Int64 42 \<noteq> String s) \<and> \<not> implements_error (Int64 42)
      \<and> \<not> implements_StackTraceError (Int64 42) \<and> \<not> implements_ReportLocationError (Int64 42)"
    by (simp add: implements_defs)
  have c: "runtime_Caller sample_runtime 1 = (7, ''error_report.go'', 65, True)
           \<and> runtime_FuncForPC sample_runtime 7 =
               Some ''github.com/muhlemmer/sloggcp.assertErrorValue''"
    by (simp add: sample_runtime_def)
  have t: "typeName (Int64 42) = ''int64''"
    by simp
  note r = assertErrorValue_unrecognized
             [OF h, of sample_runtime 7 "''error_report.go''" 65
                "''github.com/muhlemmer/sloggcp.assertErrorValue''"]
  from r c have "snd (assertErrorValue sample_runtime (Int64 42)) =
      Some \<lparr>FilePath = ''error_report.go'', LineNumber = 65,
            FunctionName = ''github.com/muhlemmer/sloggcp.assertErrorValue''\<rparr>"
    by blast
  moreover from r have "fst (assertErrorValue sample_runtime (Int64 42)) =
      ''!!! can't handle error report for type int64 !!!''"
    unfolding t by simp
  ultimately have "assertErrorValue sample_runtime (Int64 42) =
       (''!!! can't handle error report for type int64 !!!'',
        Some \<lparr>FilePath = ''error_report.go'', LineNumber = 65,
              FunctionName = ''github.com/muhlemmer/sloggcp.assertErrorValue''\<rparr>)"
    by (simp add: prod_eq_iff)
  with h c show ?thesis
    by blast
qed

text \<open>
  C8. Error extraction returns exactly when none of the methods it calls panics. When the
  methods that the type switch calls on the value return, \<open>assertErrorValue\<close> returns a
  message and a location, the ones determined by the results of these methods and by the
  stack capture; a string, the nil interface and a value of an unrecognized type have no
  method called, so that extraction always returns for them. When one of the called
  methods panics, the panic is not recovered and extraction ends with it. The result is
  the same under every state of the call stack that gives \<open>NewReportLocation(0)\<close> the
  same capture.
\<close>

theorem assertErrorValue_run_returns:
  "(panicking \<inter> called_methods v = {} \<longrightarrow>
      assertErrorValue_run rt panicking v = Inr (assertErrorValue rt v))
   \<and> (\<not> implements_error v \<longrightarrow>
      assertErrorValue_run rt panicking v = Inr (assertErrorValue rt v))
   \<and> (panicking \<inter> called_methods v \<noteq> {} \<longrightarrow>
      (\<exists>m \<in> panicking \<inter> called_methods v. assertErrorValue_run rt panicking v = Inl m))
   \<and> (NewReportLocation rt 0 = NewReportLocation rt' 0 \<longrightarrow>
      assertErrorValue_run rt panicking v = assertErrorValue_run rt' panicking v)"
proof (intro conjI impI)
  show "assertErrorValue_run rt panicking v = Inr (assertErrorValue rt v)"
    if "panicking \<inter> called_methods v = {}"
    using that
    by (cases "(rt, panicking, v)" rule: assertErrorValue_run.cases)
       (simp_all add: called_methods_def implements_defs call_method_def)
  show "assertErrorValue_run rt panicking v = Inr (assertErrorValue rt v)"
    if "\<not> implements_error v"
    using that
    by (cases "(rt, panicking, v)" rule: assertErrorValue_run.cases)
       (simp_all add: implements_defs)
  show "\<exists>m \<in> panicking \<inter> called_methods v. assertErrorValue_run rt panicking v = Inl m"
    if "panicking \<inter> called_methods v \<noteq> {}"
    using that
    by (cases "(rt, panicking, v)" rule: assertErrorValue_run.cases)
       (auto simp: called_methods_def implements_defs call_method_def)
  show "assertErrorValue_run rt panicking v = assertErrorValue_run rt' panicking v"
    if "NewReportLocation rt 0 = NewReportLocation rt' 0"
    using that
    by (cases "(rt, panicking, v)" rule: assertErrorValue_run.cases) simp_all
qed

theorem assertErrorValue_run_returns_witness:
  "({Error_method} \<inter> called_methods sample_stackAndReport = {}
      \<and> assertErrorValue_run sample_runtime {Error_method} sample_stackAndReport =
          Inr (''stack'', Some sample_location))
   \<and> (\<not> implements_error (Int64 42)
      \<and> assertErrorValue_run unavailable_runtime {Error_method} (Int64 42) =
          Inr (''!!! can't handle error report for type int64 !!!'', None))
   \<and> ({StackTrace_method} \<inter> called_methods sample_StackTraceError \<noteq> {}
      \<and> assertErrorValue_run sample_runtime {StackTrace_method} sample_StackTraceError =
          Inl StackTrace_method)
   \<and> (NewReportLocation sample_runtime 0 =
        NewReportLocation
          (sample_runtime\<lparr>runtime_Caller := (\<lambda>skip. (7, ''error_report.go'', 65, True))\<rparr>) 0
      \<and> assertErrorValue_run sample_runtime {} (Bool True) =
          assertErrorValue_run
            (sample_runtime\<lparr>runtime_Caller := (\<lambda>skip. (7, ''error_report.go'', 65, True))\<rparr>)
            {} (Bool True))"
proof -
  let ?rt' = "sample_runtime\<lparr>runtime_Caller := (\<lambda>skip. (7, ''error_report.go'', 65, True))\<rparr>"
  have h1: "{Error_method} \<inter> called_methods sample_stackAndReport = {}"
    by (simp add: called_methods_def implements_defs sample_stackAndReport_def)
  have h2: "\<not> implements_error (Int64 42)"
    by (simp add: implements_defs)
  have h3: "{StackTrace_method} \<inter> called_methods sample_StackTraceError \<noteq> {}"
    by (simp add: called_methods_def implements_defs sample_StackTraceError_def)
  have h4: "NewReportLocation sample_runtime 0 = NewReportLocation ?rt' 0"
    by (simp add: NewReportLocation_def sample_runtime_def)
  have r1: "assertErrorValue sample_runtime sample_stackAndReport =
              (''stack'', Some sample_location)"
    by (simp add: sample_stackAndReport_def)
  have r2: "assertErrorValue unavailable_runtime (Int64 42) =
              (''!!! can't handle error report for type int64 !!!'', None)"
    by (simp add: cant_handle_def NewReportLocation_def unavailable_runtime_def)
  have s3: "{StackTrace_method} \<inter> called_methods sample_StackTraceError = {StackTrace_method}"
    by (simp add: called_methods_def implements_defs sample_StackTraceError_def)
  note t1 = assertErrorValue_run_returns
              [where panicking = "{Error_method}" and v = sample_stackAndReport
                 and rt = sample_runtime]
  note t2 = assertErrorValue_run_returns
              [where panicking = "{Error_method}" and v = "Int64 42"
                 and rt = unavailable_runtime]
  note t3 = assertErrorValue_run_returns
              [where panicking = "{StackTrace_method}" and v = sample_StackTraceError
                 and rt = sample_runtime]
  note t4 = assertErrorValue_run_returns
              [where panicking = "{}" and v = "Bool True" and rt = sample_runtime
                 and rt' = ?rt']
  have c1: "assertErrorValue_run sample_runtime {Error_method} sample_stackAndReport =
              Inr (''stack'', Some sample_location)"
    using t1 [THEN conjunct1, THEN mp, OF h1] r1 by simp
  have c2: "assertErrorValue_run unavailable_runtime {Error_method} (Int64 42) =
              Inr (''!!! can't handle error report for type int64 !!!'', None)"
    using t2 [THEN conjunct2, THEN conjunct1, THEN mp, OF h2] r2 by simp
  have c3: "assertErrorValue_run sample_runtime {StackTrace_method} sample_StackTraceError =
              Inl StackTrace_method"
    using t3 [THEN conjunct2, THEN conjunct2, THEN conjunct1, THEN mp, OF h3]
    unfolding s3 by simp
  have c4: "assertErrorValue_run sample_runtime {} (Bool True) =
              assertErrorValue_run ?rt' {} (Bool True)"
    by (rule t4 [THEN conjunct2, THEN conjunct2, THEN conjunct2, THEN mp, OF h4])
  show ?thesis
    by (rule conjI [OF conjI [OF h1 c1] conjI [OF conjI [OF h2 c2]
          conjI [OF conjI [OF h3 c3] conjI [OF h4 c4]]]])
qed

text \<open>
  The claim as the specification states it, that extraction returns a message for every
  input value whatsoever, fails at the nil \<open>*fs.PathError\<close>: the case \<open>error\<close> of the
  type switch calls its \<open>Error\<close> method, which panics.
\<close>

theorem assertErrorValue_run_counterexample:
  "assertErrorValue_run sample_runtime {Error_method} nil_PathError = Inl Error_method"
  by (simp add: nil_PathError_def call_method_def)

section \<open>Severity and key translation\<close>

text \<open>
  C3. The translation of the level attribute never fails: the levels DEBUG, INFO, WARN and
  ERROR give the severities \<open>"DEBUG"\<close>, \<open>"INFO"\<close>, \<open>"WARNING"\<close> and \<open>"ERROR"\<close>; every
  other level number, and every payload that is not a \<open>slog.Level\<close>, gives
  \<open>"DEFAULT"\<close>. The result is always the attribute with the key \<open>"severity"\<close>.
\<close>

theorem replaceLevelAttr_severity:
  "replaceLevelAttr \<lparr>Key = k, Value = Level slog_LevelDebug\<rparr> =
     \<lparr>Key = ''severity'', Value = String ''DEBUG''\<rparr>
   \<and> replaceLevelAttr \<lparr>Key = k, Value = Level slog_LevelInfo\<rparr> =
       \<lparr>Key = ''severity'', Value = String ''INFO''\<rparr>
   \<and> replaceLevelAttr \<lparr>Key = k, Value = Level slog_LevelWarn\<rparr> =
       \<lparr>Key = ''severity'', Value = String ''WARNING''\<rparr>
   \<and> replaceLevelAttr \<lparr>Key = k, Value = Level slog_LevelError\<rparr> =
       \<lparr>Key = ''severity'', Value = String ''ERROR''\<rparr>
   \<and> (l \<notin> {slog_LevelDebug, slog_LevelInfo, slog_LevelWarn, slog_LevelError} \<longrightarrow>
        replaceLevelAttr \<lparr>Key = k, Value = Level l\<rparr> =
          \<lparr>Key = ''severity'', Value = String ''DEFAULT''\<rparr>)
   \<and> ((\<forall>l. v \<noteq> Level l) \<longrightarrow>
        replaceLevelAttr \<lparr>Key = k, Value = v\<rparr> =
          \<lparr>Key = ''severity'', Value = String ''DEFAULT''\<rparr>)"
  by (cases v) (simp_all add: replaceLevelAttr_def level_defs severity_defs)

theorem replaceLevelAttr_severity_witness:
  "(- 1 :: go_int) \<notin> {slog_LevelDebug, slog_LevelInfo, slog_LevelWarn, slog_LevelError}
   \<and> replaceLevelAttr \<lparr>Key = ''level'', Value = Level (- 1)\<rparr> =
       \<lparr>Key = ''severity'', Value = String ''DEFAULT''\<rparr>
   \<and> (\<forall>l. String ''invalid'' \<noteq> Level l)
   \<and> replaceLevelAttr \<lparr>Key = ''level'', Value = String ''invalid''\<rparr> =
       \<lparr>Key = ''severity'', Value = String ''DEFAULT''\<rparr>"
proof -
  have h1: "(- 1 :: go_int) \<notin> {slog_LevelDebug, slog_LevelInfo, slog_LevelWarn, slog_LevelError}"
    by (simp add: level_defs)
  have h2: "\<forall>l. String ''invalid'' \<noteq> Level l"
    by simp
  from replaceLevelAttr_severity [of "''level''" "- 1" "String ''invalid''"] h1 h2
  show ?thesis
    by blast
qed

text \<open>
  C6. At the top level (the empty group path) \<open>ReplaceAttr\<close> translates the default
  keys: the attribute of the time key is returned as it is; the attribute of the level
  key becomes the attribute \<open>"severity"\<close> whose value is the severity string
  \<open>replaceLevelAttr\<close> computes; the message key \<open>"msg"\<close> becomes \<open>"message"\<close> and the
  source key becomes \<open>"logging.googleapis.com/sourceLocation"\<close>, both with the value
  they had.
\<close>

theorem ReplaceAttr_top_level:
  "ReplaceAttr [] \<lparr>Key = slog_TimeKey, Value = v\<rparr> = \<lparr>Key = ''time'', Value = v\<rparr>
   \<and> ReplaceAttr [] \<lparr>Key = slog_LevelKey, Value = v\<rparr> =
       replaceLevelAttr \<lparr>Key = slog_LevelKey, Value = v\<rparr>
   \<and> Key (ReplaceAttr [] \<lparr>Key = slog_LevelKey, Value = v\<rparr>) = ''severity''
   \<and> Value (ReplaceAttr [] \<lparr>Key = slog_LevelKey, Value = v\<rparr>)
       \<in> {String ''DEBUG'', String ''INFO'', String ''WARNING'', String ''ERROR'',
           String ''DEFAULT''}
   \<and> ReplaceAttr [] \<lparr>Key = slog_LevelKey, Value = Level slog_LevelWarn\<rparr> =
       \<lparr>Key = ''severity'', Value = String ''WARNING''\<rparr>
   \<and> ReplaceAttr [] \<lparr>Key = slog_MessageKey, Value = v\<rparr> = \<lparr>Key = ''message'', Value = v\<rparr>
   \<and> ReplaceAttr [] \<lparr>Key = slog_SourceKey, Value = v\<rparr> =
       \<lparr>Key = ''logging.googleapis.com/sourceLocation'', Value = v\<rparr>"
  by (simp add: ReplaceAttr_def slog_TimeKey_def slog_LevelKey_def slog_MessageKey_def
        slog_SourceKey_def MessageKey_def SourceLocationKey_def replaceLevelAttr_def
        level_defs severity_defs split: any.splits)

text \<open>
  C9. Inside a group (a non-empty group path) \<open>ReplaceAttr\<close> returns every attribute as
  it is, whatever its key: renaming and the severity act at the top level only.
\<close>

theorem ReplaceAttr_in_group:
  "groups \<noteq> [] \<Longrightarrow> ReplaceAttr groups a = a"
  by (simp add: ReplaceAttr_def)

theorem ReplaceAttr_in_group_witness:
  "[''nested''] \<noteq> []
   \<and> ReplaceAttr [''nested''] \<lparr>Key = ''level'', Value = Level slog_LevelInfo\<rparr> =
       \<lparr>Key = ''level'', Value = Level slog_LevelInfo\<rparr>
   \<and> ReplaceAttr [] \<lparr>Key = ''level'', Value = Level slog_LevelInfo\<rparr> \<noteq>
       \<lparr>Key = ''level'', Value = Level slog_LevelInfo\<rparr>"
proof -
  have h: "[''nested''] \<noteq> []"
    by simp
  have top: "ReplaceAttr [] \<lparr>Key = ''level'', Value = Level slog_LevelInfo\<rparr> \<noteq>
       \<lparr>Key = ''level'', Value = Level slog_LevelInfo\<rparr>"
    by (simp add: ReplaceAttr_def slog_LevelKey_def replaceLevelAttr_def level_defs
          severity_defs)
  from ReplaceAttr_in_group [OF h, of "\<lparr>Key = ''level'', Value = Level slog_LevelInfo\<rparr>"]
  show ?thesis
    using h top by blast
qed

section \<open>The level gate\<close>

text \<open>
  C7. A log call whose level is below the configured minimum level, which is INFO when
  none is configured, compiles to \<open>Skip\<close>: there is no document, and the sink receives
  no bytes.
\<close>

theorem compile_below_threshold:
  "sint level < sint (minimum_level threshold) \<Longrightarrow>
   compile build chain level message callAttrs threshold = Skip
   \<and> sink_receives encode (compile build chain level message callAttrs threshold) = []"
  by (simp add: compile_def sink_receives_def)

theorem compile_below_threshold_witness:
  "sint slog_LevelDebug < sint (minimum_level None)
   \<and> compile (\<lambda>chain level message callAttrs. [(''message'', String message)]) ()
        slog_LevelDebug ''this is debug'' [\<lparr>Key = ''foo'', Value = String ''bar''\<rparr>] None = Skip
   \<and> sink_receives (\<lambda>doc. ''{}'')
        (compile (\<lambda>chain level message callAttrs. [(''message'', String message)]) ()
           slog_LevelDebug ''this is debug'' [\<lparr>Key = ''foo'', Value = String ''bar''\<rparr>] None) = []"
proof -
  have h: "sint slog_LevelDebug < sint (minimum_level None)"
    by (simp add: minimum_level_def slog_LevelDebug_def slog_LevelInfo_def)
  from compile_below_threshold
         [OF h, of "\<lambda>chain level message callAttrs. [(''message'', String message)]" "()"
            "''this is debug''" "[\<lparr>Key = ''foo'', Value = String ''bar''\<rparr>]" "\<lambda>doc. ''{}''"]
  show ?thesis
    using h by blast
qed

end
